theory Spec2Isabelle
  imports Main
begin

section \<open>The session and authentication gateway of bloat\<close>

text \<open>
  This theory embeds the authentication decorator of \<^verbatim>\<open>service/auth.go\<close>
  (\<^verbatim>\<open>getClient\<close>, \<^verbatim>\<open>checkCSRF\<close>, \<^verbatim>\<open>GetUserToken\<close> and the mutating
  operations) and the sign-in handshake of \<^verbatim>\<open>service/service.go\<close>
  (\<^verbatim>\<open>GetAuthUrl\<close>, \<^verbatim>\<open>GetUserToken\<close>).

  Go functions with several results are modelled as tuples whose last component is the
  \<^verbatim>\<open>error\<close> result (\<open>None\<close> for \<^verbatim>\<open>nil\<close>); a pointer result that is \<^verbatim>\<open>nil\<close>
  exactly when the error is set is modelled as a sum. Everything a function does to the
  two repositories or to the network is threaded through an explicit \<open>world\<close>, which also
  keeps a trace of these interactions in the order in which they happen.
\<close>

subsection \<open>Errors\<close>

text \<open>
  The sentinel errors: \<^verbatim>\<open>ErrInvalidSession\<close> and \<^verbatim>\<open>ErrInvalidCSRFToken\<close> of auth.go,
  \<^verbatim>\<open>ErrInvalidArgument\<close>, \<^verbatim>\<open>ErrInvalidToken\<close> and \<^verbatim>\<open>ErrInvalidClient\<close> of service.go,
  and \<^verbatim>\<open>model.ErrAppNotFound\<close>, which service.go compares against. \<open>ErrSessionNotFound\<close>
  is the session store's miss, and \<open>ErrOther\<close> stands for every other error value a
  collaborator can return (storage, transport, decoding), tagged by its message.
\<close>

datatype error =
    ErrInvalidSession
  | ErrInvalidCSRFToken
  | ErrInvalidArgument
  | ErrInvalidToken
  | ErrInvalidClient
  | ErrAppNotFound
  | ErrSessionNotFound
  | ErrOther string

subsection \<open>Data model\<close>

text \<open>
  Modelled from the spec: the declaration of \<^verbatim>\<open>model.Session\<close> is not among the sources.
  A session has an id, the instance it is bound to, an access token that is empty until
  the handshake finishes, and a CSRF token; these are also the fields that the sources
  read and write. service.go creates a session as \<^verbatim>\<open>model.Session{ID, InstanceURL}\<close> and
  reads \<^verbatim>\<open>session.InstanceURL\<close>, while auth.go reads the same binding as
  \<^verbatim>\<open>session.InstanceDomain\<close>: both name the key under which the session's instance is
  looked up in the application repository, and the model has the one field \<open>InstanceURL\<close>
  for it.
\<close>

record Session =
  ID :: string
  InstanceURL :: string
  AccessToken :: string
  CSRFToken :: string

text \<open>
  Modelled from the spec: the declaration of \<^verbatim>\<open>model.App\<close> is not among the sources.
  A registered application has the instance it belongs to, which is its key, and the
  client id and client secret that the instance issued.
\<close>

record App =
  InstanceURL :: string
  ClientID :: string
  ClientSecret :: string

text \<open>\<^verbatim>\<open>mastodon.Config\<close>, from which \<^verbatim>\<open>mastodon.NewClient\<close> builds the API client.\<close>

record Config =
  Server :: string
  ClientID :: string
  ClientSecret :: string
  AccessToken :: string

text \<open>
  Modelled from the spec: the declaration of \<^verbatim>\<open>model.Client\<close> is not among the sources.
  A client is a session together with an API client configured for it; \<open>getClient\<close> fills
  exactly these two fields. The API client is represented by its configuration.
\<close>

record Client =
  Client :: Config
  Session :: Session

text \<open>\<^verbatim>\<open>mastodon.AppConfig\<close> and the \<^verbatim>\<open>mastodon.Application\<close> a registration returns.\<close>

record AppConfig =
  Server :: string
  ClientName :: string
  Scopes :: string
  Website :: string
  RedirectURIs :: string

record Application =
  ClientID :: string
  ClientSecret :: string

text \<open>\<^verbatim>\<open>model.Settings\<close> of model/settings.go.\<close>

record Settings =
  DefaultVisibility :: string
  CopyScope :: bool
  ThreadInNewTab :: bool
  MaskNSFW :: bool

text \<open>
  A \<^verbatim>\<open>url.URL\<close> as \<^verbatim>\<open>GetAuthUrl\<close> uses it: the text handed to \<^verbatim>\<open>url.Parse\<close> and the
  query parameters set on it, in the key order in which \<^verbatim>\<open>url.Values.Encode\<close> emits them.
\<close>

record URL =
  Raw :: string
  RawQuery :: "(string \<times> string) list"

text \<open>The fields of the \<^verbatim>\<open>service\<close> struct that the handshake reads.\<close>

record service =
  clientName :: string
  clientScope :: string
  clientWebsite :: string

subsection \<open>Request context\<close>

text \<open>
  A \<^verbatim>\<open>context.Context\<close> is used as a dictionary from string keys to values of any type.
  \<^verbatim>\<open>ctx.Value(key).(string)\<close> yields the string and \<^verbatim>\<open>true\<close> when the key is bound to
  a string, and the empty string and \<^verbatim>\<open>false\<close> otherwise.
\<close>

datatype ctx_value = StringValue string | OtherValue

type_synonym Context = "string \<rightharpoonup> ctx_value"

definition ctx_string :: "Context \<Rightarrow> string \<Rightarrow> string \<times> bool" where
  "ctx_string ctx key =
     (case ctx key of
        Some (StringValue s) \<Rightarrow> (s, True)
      | Some OtherValue \<Rightarrow> ('''', False)
      | None \<Rightarrow> ('''', False))"

subsection \<open>The world: repositories, randomness and the network\<close>

text \<open>
  Every interaction with a repository or with a remote instance is recorded, attempted
  or successful, at the end of the trace.
\<close>

datatype event =
    EvSessionGet string
  | EvSessionAdd Session
  | EvAppGet string
  | EvAppAdd App
  | EvRegisterApp AppConfig
  | EvHttpPost string "(string \<times> string) list"

record world =
  sessions :: "string \<rightharpoonup> Session"
  apps :: "string \<rightharpoonup> App"
  rng :: nat
  trace :: "event list"

text \<open>
  The collaborators outside the sources, as parameters: storage faults of the two
  repositories, the random session identifiers of \<^verbatim>\<open>util.NewSessionId\<close> (one per draw),
  \<^verbatim>\<open>mastodon.RegisterApp\<close>, \<^verbatim>\<open>http.Post\<close> (the response body or a transport error), the
  JSON decoding of the token response, and \<^verbatim>\<open>url.Parse\<close> / \<^verbatim>\<open>URL.String\<close>.
\<close>

record env =
  sessionGetFault :: "string \<Rightarrow> error option"
  sessionAddFault :: "Session \<Rightarrow> error option"
  appGetFault :: "string \<Rightarrow> error option"
  appAddFault :: "App \<Rightarrow> error option"
  NewSessionId :: "nat \<Rightarrow> string"
  RegisterApp :: "AppConfig \<Rightarrow> error + Application"
  http_Post :: "string \<Rightarrow> (string \<times> string) list \<Rightarrow> error + string"
  decode_access_token :: "string \<Rightarrow> error + string"
  url_ParseFault :: "string \<Rightarrow> error option"
  url_String :: "URL \<Rightarrow> string"

definition log :: "event \<Rightarrow> world \<Rightarrow> world" where
  "log e w = w\<lparr>trace := trace w @ [e]\<rparr>"

text \<open>
  Modelled from the spec: the implementation of \<^verbatim>\<open>model.SessionRepository\<close> is not among
  the sources. The Session Store is a key-value collection keyed by session id, and
  \<open>get\<close> fails when the key is absent (or when the storage fails).
\<close>

definition sessionRepo_Get :: "env \<Rightarrow> string \<Rightarrow> world \<Rightarrow> (error + Session) \<times> world" where
  "sessionRepo_Get E sessionID w =
     (case sessionGetFault E sessionID of
        Some err \<Rightarrow> (Inl err, log (EvSessionGet sessionID) w)
      | None \<Rightarrow>
          (case sessions w sessionID of
             None \<Rightarrow> (Inl ErrSessionNotFound, log (EvSessionGet sessionID) w)
           | Some session \<Rightarrow> (Inr session, log (EvSessionGet sessionID) w)))"

text \<open>
  Modelled from the spec: the implementation of \<^verbatim>\<open>model.SessionRepository\<close> is not among
  the sources. \<open>add\<close> creates or overwrites the record under \<^verbatim>\<open>Session.id\<close>, or fails with
  a storage error and changes nothing.
\<close>

definition sessionRepo_Add :: "env \<Rightarrow> Session \<Rightarrow> world \<Rightarrow> error option \<times> world" where
  "sessionRepo_Add E session w =
     (case sessionAddFault E session of
        Some err \<Rightarrow> (Some err, log (EvSessionAdd session) w)
      | None \<Rightarrow>
          (None, log (EvSessionAdd session)
                   (w\<lparr>sessions := (sessions w)(Session.ID session \<mapsto> session)\<rparr>)))"

text \<open>
  Modelled from the spec: the implementation of \<^verbatim>\<open>model.AppRepository\<close> is not among the
  sources. The Instance Registry is keyed by instance URL, and \<open>get\<close> fails with
  \<^verbatim>\<open>AppNotFound\<close> when the key is absent (or with the error of a failing storage).
\<close>

definition appRepo_Get :: "env \<Rightarrow> string \<Rightarrow> world \<Rightarrow> (error + App) \<times> world" where
  "appRepo_Get E instance w =
     (case appGetFault E instance of
        Some err \<Rightarrow> (Inl err, log (EvAppGet instance) w)
      | None \<Rightarrow>
          (case apps w instance of
             None \<Rightarrow> (Inl ErrAppNotFound, log (EvAppGet instance) w)
           | Some app \<Rightarrow> (Inr app, log (EvAppGet instance) w)))"

text \<open>
  Modelled from the spec: the implementation of \<^verbatim>\<open>model.AppRepository\<close> is not among the
  sources. \<open>add\<close> stores the application under its \<^verbatim>\<open>instanceURL\<close>, overwriting, or fails
  with a storage error and changes nothing.
\<close>

definition appRepo_Add :: "env \<Rightarrow> App \<Rightarrow> world \<Rightarrow> error option \<times> world" where
  "appRepo_Add E app w =
     (case appAddFault E app of
        Some err \<Rightarrow> (Some err, log (EvAppAdd app) w)
      | None \<Rightarrow>
          (None, log (EvAppAdd app) (w\<lparr>apps := (apps w)(App.InstanceURL app \<mapsto> app)\<rparr>)))"

text \<open>\<^verbatim>\<open>util.NewSessionId()\<close>: the next draw of the random source.\<close>

definition util_NewSessionId :: "env \<Rightarrow> world \<Rightarrow> string \<times> world" where
  "util_NewSessionId E w = (NewSessionId E (rng w), w\<lparr>rng := Suc (rng w)\<rparr>)"

definition mastodon_RegisterApp :: "env \<Rightarrow> AppConfig \<Rightarrow> world \<Rightarrow> (error + Application) \<times> world" where
  "mastodon_RegisterApp E cfg w = (RegisterApp E cfg, log (EvRegisterApp cfg) w)"

definition net_http_Post ::
  "env \<Rightarrow> string \<Rightarrow> (string \<times> string) list \<Rightarrow> world \<Rightarrow> (error + string) \<times> world" where
  "net_http_Post E u payload w = (http_Post E u payload, log (EvHttpPost u payload) w)"

subsection \<open>auth.go: resolving the client and checking the CSRF token\<close>

text \<open>
  \<^verbatim>\<open>getClient\<close> has the named results \<^verbatim>\<open>(c, err)\<close>. The two short variable declarations
  \<^verbatim>\<open>session, err := ...\<close> and \<^verbatim>\<open>client, err := ...\<close> stand in the function's outermost
  block, so they assign the named result \<^verbatim>\<open>err\<close>; the bare \<^verbatim>\<open>return\<close> after the
  application lookup returns \<^verbatim>\<open>c = nil\<close> and the repository's error as it is.
\<close>

definition getClient :: "env \<Rightarrow> Context \<Rightarrow> world \<Rightarrow> (error + Client) \<times> world" where
  "getClient E ctx w =
     (case ctx_string ctx ''session_id'' of
        (sessionID, ok) \<Rightarrow>
          if \<not> ok \<or> length sessionID < 1 then (Inl ErrInvalidSession, w)
          else
            (case sessionRepo_Get E sessionID w of
               (Inl err, w1) \<Rightarrow> (Inl ErrInvalidSession, w1)
             | (Inr session, w1) \<Rightarrow>
                 (case appRepo_Get E (Session.InstanceURL session) w1 of
                    (Inl err, w2) \<Rightarrow> (Inl err, w2)
                  | (Inr client, w2) \<Rightarrow>
                      (Inr \<lparr>Client =
                              \<lparr>Config.Server = App.InstanceURL client,
                               Config.ClientID = App.ClientID client,
                               Config.ClientSecret = App.ClientSecret client,
                               Config.AccessToken = Session.AccessToken session\<rparr>,
                            Session = session\<rparr>, w2))))"

definition checkCSRF :: "Context \<Rightarrow> Client \<Rightarrow> error option" where
  "checkCSRF ctx c =
     (case ctx_string ctx ''csrf_token'' of
        (csrfToken, ok) \<Rightarrow>
          if \<not> ok \<or> csrfToken \<noteq> Session.CSRFToken (Client.Session c)
          then Some ErrInvalidCSRFToken
          else None)"

subsection \<open>Library functions used by the handshake\<close>

text \<open>\<^verbatim>\<open>strings.HasPrefix(s, prefix)\<close>.\<close>

definition strings_HasPrefix :: "string \<Rightarrow> string \<Rightarrow> bool" where
  "strings_HasPrefix s pre = (length pre \<le> length s \<and> take (length pre) s = pre)"

text \<open>
  \<^verbatim>\<open>path.Join\<close> of Go's standard library: the elements from the first non-empty one on
  are joined with slashes and the result is cleaned by \<^verbatim>\<open>path.Clean\<close>, which drops empty
  and \<^verbatim>\<open>.\<close> elements (so that runs of slashes become one slash), resolves \<^verbatim>\<open>..\<close>
  against the element before it, keeps a leading slash, and returns \<^verbatim>\<open>.\<close> for an
  empty result.
\<close>

fun split_slash :: "string \<Rightarrow> string list" where
  "split_slash [] = [[]]"
| "split_slash (c # cs) =
     (if c = CHR ''/'' then [] # split_slash cs
      else (case split_slash cs of
              [] \<Rightarrow> [[c]]
            | x # xs \<Rightarrow> (c # x) # xs))"

fun join_slash :: "string list \<Rightarrow> string" where
  "join_slash [] = []"
| "join_slash [x] = x"
| "join_slash (x # y # ys) = x @ ''/'' @ join_slash (y # ys)"

definition clean_step :: "bool \<Rightarrow> string list \<Rightarrow> string \<Rightarrow> string list" where
  "clean_step rooted out elem =
     (if elem = [] \<or> elem = ''.'' then out
      else if elem = ''..'' then
        (if out \<noteq> [] \<and> last out \<noteq> ''..'' then butlast out
         else if \<not> rooted then out @ [''..'']
         else out)
      else out @ [elem])"

definition path_Clean :: "string \<Rightarrow> string" where
  "path_Clean p =
     (case p of
        [] \<Rightarrow> ''.''
      | c # cs \<Rightarrow>
          (let rooted = (c = CHR ''/'');
               out = foldl (clean_step rooted) [] (split_slash p);
               s = (if rooted then ''/'' else []) @ join_slash out
           in if s = [] then ''.'' else s))"

definition path_Join :: "string list \<Rightarrow> string" where
  "path_Join elem =
     (case dropWhile (\<lambda>e. e = []) elem of
        [] \<Rightarrow> []
      | e # es \<Rightarrow> path_Clean (join_slash (e # es)))"

subsection \<open>service.go: the sign-in handshake\<close>

text \<open>
  The end of \<^verbatim>\<open>GetAuthUrl\<close> (from \<^verbatim>\<open>url.Parse\<close> on), which both the branch that finds
  the application and the branch that registers it reach. The results are the named
  results \<^verbatim>\<open>(redirectUrl, sessionID, err)\<close>.
\<close>

definition GetAuthUrl_redirect ::
  "env \<Rightarrow> service \<Rightarrow> string \<Rightarrow> App \<Rightarrow> string \<Rightarrow> world
     \<Rightarrow> (string \<times> string \<times> error option) \<times> world" where
  "GetAuthUrl_redirect E svc instance app sessionID w =
     (let joined = path_Join [instance, ''/oauth/authorize''] in
      case url_ParseFault E joined of
        Some err \<Rightarrow> (([], sessionID, Some err), w)
      | None \<Rightarrow>
          ((url_String E
              \<lparr>Raw = joined,
               RawQuery =
                 [(''client_id'', App.ClientID app),
                  (''redirect_uri'', clientWebsite svc @ ''/oauth_callback''),
                  (''response_type'', ''code''),
                  (''scope'', ''read write follow'')]\<rparr>,
            sessionID, None), w))"

definition service_GetAuthUrl ::
  "env \<Rightarrow> service \<Rightarrow> Context \<Rightarrow> string \<Rightarrow> world
     \<Rightarrow> (string \<times> string \<times> error option) \<times> world" where
  "service_GetAuthUrl E svc ctx instance0 w =
     (let instance =
            (if \<not> strings_HasPrefix instance0 ''https://''
             then ''https://'' @ instance0 else instance0)
      in
      case util_NewSessionId E w of
        (sessionID, w1) \<Rightarrow>
          (case sessionRepo_Add E
                  \<lparr>ID = sessionID, InstanceURL = instance,
                   AccessToken = [], CSRFToken = []\<rparr> w1 of
             (Some err, w2) \<Rightarrow> (([], sessionID, Some err), w2)
           | (None, w2) \<Rightarrow>
               (case appRepo_Get E instance w2 of
                  (Inr app, w3) \<Rightarrow> GetAuthUrl_redirect E svc instance app sessionID w3
                | (Inl err, w3) \<Rightarrow>
                    if err \<noteq> ErrAppNotFound then (([], sessionID, Some err), w3)
                    else
                      (case mastodon_RegisterApp E
                              \<lparr>AppConfig.Server = instance,
                               ClientName = clientName svc,
                               Scopes = clientScope svc,
                               Website = clientWebsite svc,
                               RedirectURIs = clientWebsite svc @ ''/oauth_callback''\<rparr> w3 of
                         (Inl err, w4) \<Rightarrow> (([], sessionID, Some err), w4)
                       | (Inr mastoApp, w4) \<Rightarrow>
                           (let app = \<lparr>App.InstanceURL = instance,
                                       App.ClientID = Application.ClientID mastoApp,
                                       App.ClientSecret = Application.ClientSecret mastoApp\<rparr>
                            in
                            case appRepo_Add E app w4 of
                              (Some err, w5) \<Rightarrow> (([], sessionID, Some err), w5)
                            | (None, w5) \<Rightarrow>
                                GetAuthUrl_redirect E svc instance app sessionID w5)))))"

text \<open>
  \<^verbatim>\<open>service.GetUserToken\<close>, with the named results \<^verbatim>\<open>(token, err)\<close>. The JSON payload
  is a \<^verbatim>\<open>map[string]string\<close>, whose encoding cannot fail and lists the keys in sorted
  order. The parameters \<^verbatim>\<open>ctx\<close> and \<^verbatim>\<open>c\<close> are not used by the body.
\<close>

definition service_GetUserToken ::
  "env \<Rightarrow> service \<Rightarrow> Context \<Rightarrow> string \<Rightarrow> Client option \<Rightarrow> string \<Rightarrow> world
     \<Rightarrow> (string \<times> error option) \<times> world" where
  "service_GetUserToken E svc ctx sessionID c code w =
     (if length code < 1 then (([], Some ErrInvalidArgument), w)
      else
        (case sessionRepo_Get E sessionID w of
           (Inl err, w1) \<Rightarrow> (([], Some err), w1)
         | (Inr session, w1) \<Rightarrow>
             (case appRepo_Get E (Session.InstanceURL session) w1 of
                (Inl err, w2) \<Rightarrow> (([], Some err), w2)
              | (Inr app, w2) \<Rightarrow>
                  (case net_http_Post E (App.InstanceURL app @ ''/oauth/token'')
                          [(''client_id'', App.ClientID app),
                           (''client_secret'', App.ClientSecret app),
                           (''code'', code),
                           (''grant_type'', ''authorization_code''),
                           (''redirect_uri'', clientWebsite svc @ ''/oauth_callback'')] w2 of
                     (Inl err, w3) \<Rightarrow> (([], Some err), w3)
                   | (Inr body, w3) \<Rightarrow>
                       (case decode_access_token E body of
                          Inl err \<Rightarrow> (([], Some err), w3)
                        | Inr token \<Rightarrow> ((token, None), w3))))))"

subsection \<open>auth.go: the gateway's operations\<close>

text \<open>
  Each method of \<^verbatim>\<open>authService\<close> takes the method of the embedded \<^verbatim>\<open>Service\<close> that it
  wraps as the parameter \<open>inner\<close>. A \<^verbatim>\<open>*model.Client\<close> parameter is a \<open>Client option\<close>
  (the handlers pass \<^verbatim>\<open>nil\<close>), the \<^verbatim>\<open>io.Writer\<close> is any value \<open>'wr\<close>. On an early
  \<^verbatim>\<open>return\<close> the other named results keep their zero values.
\<close>

definition authService_GetAuthUrl ::
  "(Context \<Rightarrow> string \<Rightarrow> world \<Rightarrow> (string \<times> string \<times> error option) \<times> world)
     \<Rightarrow> Context \<Rightarrow> string \<Rightarrow> world \<Rightarrow> (string \<times> string \<times> error option) \<times> world" where
  "authService_GetAuthUrl inner ctx instance w = inner ctx instance w"

definition authService_GetUserToken ::
  "env \<Rightarrow> (Context \<Rightarrow> string \<Rightarrow> Client option \<Rightarrow> string \<Rightarrow> world
            \<Rightarrow> (string \<times> error option) \<times> world)
     \<Rightarrow> Context \<Rightarrow> string \<Rightarrow> Client option \<Rightarrow> string \<Rightarrow> world
     \<Rightarrow> (string \<times> error option) \<times> world" where
  "authService_GetUserToken E inner ctx sessionID c code w =
     (case getClient E ctx w of
        (Inl err, w1) \<Rightarrow> (([], Some err), w1)
      | (Inr c1, w1) \<Rightarrow>
          (case inner ctx (Session.ID (Client.Session c1)) (Some c1) code w1 of
             ((token, Some err), w2) \<Rightarrow> ((token, Some err), w2)
           | ((token, None), w2) \<Rightarrow>
               (case sessionRepo_Add E
                       ((Client.Session c1)\<lparr>Session.AccessToken := token\<rparr>) w2 of
                  (Some err, w3) \<Rightarrow> ((token, Some err), w3)
                | (None, w3) \<Rightarrow> ((token, None), w3))))"

definition authService_SaveSettings ::
  "env \<Rightarrow> (Context \<Rightarrow> 'wr \<Rightarrow> Client option \<Rightarrow> Settings \<Rightarrow> world \<Rightarrow> error option \<times> world)
     \<Rightarrow> Context \<Rightarrow> 'wr \<Rightarrow> Client option \<Rightarrow> Settings \<Rightarrow> world \<Rightarrow> error option \<times> world" where
  "authService_SaveSettings E inner ctx client c settings w =
     (case getClient E ctx w of
        (Inl err, w1) \<Rightarrow> (Some err, w1)
      | (Inr c1, w1) \<Rightarrow>
          (case checkCSRF ctx c1 of
             Some err \<Rightarrow> (Some err, w1)
           | None \<Rightarrow> inner ctx client (Some c1) settings w1))"

definition authService_Like ::
  "env \<Rightarrow> (Context \<Rightarrow> 'wr \<Rightarrow> Client option \<Rightarrow> string \<Rightarrow> world
            \<Rightarrow> (int \<times> error option) \<times> world)
     \<Rightarrow> Context \<Rightarrow> 'wr \<Rightarrow> Client option \<Rightarrow> string \<Rightarrow> world
     \<Rightarrow> (int \<times> error option) \<times> world" where
  "authService_Like E inner ctx client c id' w =
     (case getClient E ctx w of
        (Inl err, w1) \<Rightarrow> ((0, Some err), w1)
      | (Inr c1, w1) \<Rightarrow>
          (case checkCSRF ctx c1 of
             Some err \<Rightarrow> ((0, Some err), w1)
           | None \<Rightarrow> inner ctx client (Some c1) id' w1))"

definition authService_UnLike ::
  "env \<Rightarrow> (Context \<Rightarrow> 'wr \<Rightarrow> Client option \<Rightarrow> string \<Rightarrow> world
            \<Rightarrow> (int \<times> error option) \<times> world)
     \<Rightarrow> Context \<Rightarrow> 'wr \<Rightarrow> Client option \<Rightarrow> string \<Rightarrow> world
     \<Rightarrow> (int \<times> error option) \<times> world" where
  "authService_UnLike E inner ctx client c id' w =
     (case getClient E ctx w of
        (Inl err, w1) \<Rightarrow> ((0, Some err), w1)
      | (Inr c1, w1) \<Rightarrow>
          (case checkCSRF ctx c1 of
             Some err \<Rightarrow> ((0, Some err), w1)
           | None \<Rightarrow> inner ctx client (Some c1) id' w1))"

definition authService_Retweet ::
  "env \<Rightarrow> (Context \<Rightarrow> 'wr \<Rightarrow> Client option \<Rightarrow> string \<Rightarrow> world
            \<Rightarrow> (int \<times> error option) \<times> world)
     \<Rightarrow> Context \<Rightarrow> 'wr \<Rightarrow> Client option \<Rightarrow> string \<Rightarrow> world
     \<Rightarrow> (int \<times> error option) \<times> world" where
  "authService_Retweet E inner ctx client c id' w =
     (case getClient E ctx w of
        (Inl err, w1) \<Rightarrow> ((0, Some err), w1)
      | (Inr c1, w1) \<Rightarrow>
          (case checkCSRF ctx c1 of
             Some err \<Rightarrow> ((0, Some err), w1)
           | None \<Rightarrow> inner ctx client (Some c1) id' w1))"

definition authService_UnRetweet ::
  "env \<Rightarrow> (Context \<Rightarrow> 'wr \<Rightarrow> Client option \<Rightarrow> string \<Rightarrow> world
            \<Rightarrow> (int \<times> error option) \<times> world)
     \<Rightarrow> Context \<Rightarrow> 'wr \<Rightarrow> Client option \<Rightarrow> string \<Rightarrow> world
     \<Rightarrow> (int \<times> error option) \<times> world" where
  "authService_UnRetweet E inner ctx client c id' w =
     (case getClient E ctx w of
        (Inl err, w1) \<Rightarrow> ((0, Some err), w1)
      | (Inr c1, w1) \<Rightarrow>
          (case checkCSRF ctx c1 of
             Some err \<Rightarrow> ((0, Some err), w1)
           | None \<Rightarrow> inner ctx client (Some c1) id' w1))"

definition authService_PostTweet ::
  "env \<Rightarrow> (Context \<Rightarrow> 'wr \<Rightarrow> Client option \<Rightarrow> string \<Rightarrow> string \<Rightarrow> string \<Rightarrow> string
            \<Rightarrow> bool \<Rightarrow> 'f list \<Rightarrow> world \<Rightarrow> (string \<times> error option) \<times> world)
     \<Rightarrow> Context \<Rightarrow> 'wr \<Rightarrow> Client option \<Rightarrow> string \<Rightarrow> string \<Rightarrow> string \<Rightarrow> string
     \<Rightarrow> bool \<Rightarrow> 'f list \<Rightarrow> world \<Rightarrow> (string \<times> error option) \<times> world" where
  "authService_PostTweet E inner ctx client c content replyToID format visibility isNSFW files w =
     (case getClient E ctx w of
        (Inl err, w1) \<Rightarrow> (([], Some err), w1)
      | (Inr c1, w1) \<Rightarrow>
          (case checkCSRF ctx c1 of
             Some err \<Rightarrow> (([], Some err), w1)
           | None \<Rightarrow>
               inner ctx client (Some c1) content replyToID format visibility isNSFW files w1))"

definition authService_Follow ::
  "env \<Rightarrow> (Context \<Rightarrow> 'wr \<Rightarrow> Client option \<Rightarrow> string \<Rightarrow> world \<Rightarrow> error option \<times> world)
     \<Rightarrow> Context \<Rightarrow> 'wr \<Rightarrow> Client option \<Rightarrow> string \<Rightarrow> world \<Rightarrow> error option \<times> world" where
  "authService_Follow E inner ctx client c id' w =
     (case getClient E ctx w of
        (Inl err, w1) \<Rightarrow> (Some err, w1)
      | (Inr c1, w1) \<Rightarrow>
          (case checkCSRF ctx c1 of
             Some err \<Rightarrow> (Some err, w1)
           | None \<Rightarrow> inner ctx client (Some c1) id' w1))"

definition authService_UnFollow ::
  "env \<Rightarrow> (Context \<Rightarrow> 'wr \<Rightarrow> Client option \<Rightarrow> string \<Rightarrow> world \<Rightarrow> error option \<times> world)
     \<Rightarrow> Context \<Rightarrow> 'wr \<Rightarrow> Client option \<Rightarrow> string \<Rightarrow> world \<Rightarrow> error option \<times> world" where
  "authService_UnFollow E inner ctx client c id' w =
     (case getClient E ctx w of
        (Inl err, w1) \<Rightarrow> (Some err, w1)
      | (Inr c1, w1) \<Rightarrow>
          (case checkCSRF ctx c1 of
             Some err \<Rightarrow> (Some err, w1)
           | None \<Rightarrow> inner ctx client (Some c1) id' w1))"

subsection \<open>A stub remote instance and small worlds\<close>

text \<open>
  A healthy environment in which storage never fails, the remote instance registers every
  application as \<open>cid\<close>/\<open>secret\<close> and exchanges the authorization code \<open>code-1\<close> for the
  token \<open>tok-1\<close>, and a few concrete worlds. They instantiate the theorems below.
\<close>

definition stub_url_String :: "URL \<Rightarrow> string" where
  "stub_url_String u = Raw u @ ''?'' @ concat (map (\<lambda>(k, v). k @ ''='' @ v @ ''&'') (RawQuery u))"

definition stub_env :: env where
  "stub_env =
     \<lparr>sessionGetFault = (\<lambda>_. None),
      sessionAddFault = (\<lambda>_. None),
      appGetFault = (\<lambda>_. None),
      appAddFault = (\<lambda>_. None),
      NewSessionId = (\<lambda>n. ''sid-'' @ replicate n (CHR ''x'')),
      RegisterApp = (\<lambda>cfg. Inr \<lparr>Application.ClientID = ''cid'', Application.ClientSecret = ''secret''\<rparr>),
      http_Post = (\<lambda>u payload. if map_of payload ''code'' = Some ''code-1''
                                  then Inr ''tok-1'' else Inl (ErrOther ''denied'')),
      decode_access_token = (\<lambda>body. Inr body),
      url_ParseFault = (\<lambda>_. None),
      url_String = stub_url_String\<rparr>"

definition empty_world :: world where
  "empty_world = \<lparr>sessions = Map.empty, apps = Map.empty, rng = 0, trace = []\<rparr>"

definition session_a :: Session where
  "session_a = \<lparr>ID = ''s1'', InstanceURL = ''https://a.example'', AccessToken = [], CSRFToken = ''T0k''\<rparr>"

definition app_a :: App where
  "app_a = \<lparr>App.InstanceURL = ''https://a.example'', App.ClientID = ''cid'', App.ClientSecret = ''secret''\<rparr>"

definition world_noapp :: world where
  "world_noapp = empty_world\<lparr>sessions := [''s1'' \<mapsto> session_a]\<rparr>"

definition world_a :: world where
  "world_a = world_noapp\<lparr>apps := [''https://a.example'' \<mapsto> app_a]\<rparr>"


definition client_a :: Client where
  "client_a =
     \<lparr>Client = \<lparr>Config.Server = ''https://a.example'', Config.ClientID = ''cid'',
                 Config.ClientSecret = ''secret'', Config.AccessToken = []\<rparr>,
      Session = session_a\<rparr>"

definition client_notoken :: Client where
  "client_notoken = client_a\<lparr>Session := session_a\<lparr>CSRFToken := []\<rparr>\<rparr>"

text \<open>
  Inner operations of a stub Content Service: each one records the call it receives in
  the trace, as a request to the remote instance, and succeeds.
\<close>

definition stub_count_op ::
  "Context \<Rightarrow> nat \<Rightarrow> Client option \<Rightarrow> string \<Rightarrow> world \<Rightarrow> (int \<times> error option) \<times> world" where
  "stub_count_op ctx client c id' w = ((7, None), log (EvHttpPost (''/statuses/'' @ id') []) w)"

definition stub_account_op ::
  "Context \<Rightarrow> nat \<Rightarrow> Client option \<Rightarrow> string \<Rightarrow> world \<Rightarrow> error option \<times> world" where
  "stub_account_op ctx client c id' w = (None, log (EvHttpPost (''/accounts/'' @ id') []) w)"

definition stub_SaveSettings ::
  "Context \<Rightarrow> nat \<Rightarrow> Client option \<Rightarrow> Settings \<Rightarrow> world \<Rightarrow> error option \<times> world" where
  "stub_SaveSettings ctx client c settings w = (None, log (EvHttpPost ''/settings'' []) w)"

definition stub_PostTweet ::
  "Context \<Rightarrow> nat \<Rightarrow> Client option \<Rightarrow> string \<Rightarrow> string \<Rightarrow> string \<Rightarrow> string \<Rightarrow> bool
     \<Rightarrow> string list \<Rightarrow> world \<Rightarrow> (string \<times> error option) \<times> world" where
  "stub_PostTweet ctx client c content replyToID format visibility isNSFW files w =
     ((''99'', None), log (EvHttpPost ''/statuses'' [(''status'', content)]) w)"

definition settings_a :: Settings where
  "settings_a =
     \<lparr>DefaultVisibility = ''public'', CopyScope = True, ThreadInNewTab = False, MaskNSFW = True\<rparr>"

definition ctx_ok :: Context where
  "ctx_ok = [''session_id'' \<mapsto> StringValue ''s1'', ''csrf_token'' \<mapsto> StringValue ''T0k'']"

definition ctx_badcsrf :: Context where
  "ctx_badcsrf = [''session_id'' \<mapsto> StringValue ''s1'', ''csrf_token'' \<mapsto> StringValue ''t0k'']"

definition ctx_nosession :: Context where
  "ctx_nosession = [''csrf_token'' \<mapsto> StringValue ''T0k'']"

definition svc_a :: service where
  "svc_a = \<lparr>clientName = ''bloat'', clientScope = ''read write follow'',
             clientWebsite = ''https://bloat.example''\<rparr>"

text \<open>The events that only read a repository.\<close>

fun is_read :: "event \<Rightarrow> bool" where
  "is_read (EvSessionGet _) = True"
| "is_read (EvAppGet _) = True"
| "is_read _ = False"

text \<open>An environment whose remote instance refuses every application registration.\<close>

definition refusing_env :: env where
  "refusing_env = stub_env\<lparr>RegisterApp := (\<lambda>cfg. Inl (ErrOther ''connection refused''))\<rparr>"

text \<open>Two slashes in a row somewhere in a string.\<close>

fun adjacent_slashes :: "string \<Rightarrow> bool" where
  "adjacent_slashes (a # b # cs) =
     ((a = CHR ''/'' \<and> b = CHR ''/'') \<or> adjacent_slashes (b # cs))"
| "adjacent_slashes _ = False"

text \<open>Path elements as \<^verbatim>\<open>path.Clean\<close> keeps them: not empty and without a slash.\<close>

definition proper_elems :: "string list \<Rightarrow> bool" where
  "proper_elems out = (\<forall>x \<in> set out. x \<noteq> [] \<and> CHR ''/'' \<notin> set x)"

text \<open>
  The invariant of the session repository: a session is stored under its own \<open>ID\<close>.
  It holds of the empty repository, and \<open>Add\<close>, which stores under the \<open>ID\<close>, keeps it.
\<close>

definition wf_sessions :: "world \<Rightarrow> bool" where
  "wf_sessions w = (\<forall>k s. sessions w k = Some s \<longrightarrow> Session.ID s = k)"

definition ctx_empty :: Context where
  "ctx_empty = Map.empty"

definition ctx_s1 :: Context where
  "ctx_s1 = [''session_id'' \<mapsto> StringValue ''s1'']"

definition ctx_unknown :: Context where
  "ctx_unknown = [''session_id'' \<mapsto> StringValue ''zz'']"

definition ctx_empty_token :: Context where
  "ctx_empty_token = [''csrf_token'' \<mapsto> StringValue []]"

definition ctx_new :: Context where
  "ctx_new = [''session_id'' \<mapsto> StringValue ''sid-'']"

section \<open>Properties\<close>

subsection \<open>Repository lookups and the trace\<close>

lemmas fixture_defs = stub_env_def empty_world_def session_a_def app_a_def world_noapp_def world_a_def

lemmas ctx_defs = ctx_ok_def ctx_badcsrf_def ctx_nosession_def ctx_empty_def ctx_s1_def
  ctx_unknown_def ctx_empty_token_def

lemmas repo_defs = sessionRepo_Get_def sessionRepo_Add_def appRepo_Get_def appRepo_Add_def log_def

lemma fst_sessionRepo_Get_log [simp]:
  "fst (sessionRepo_Get E k (w\<lparr>trace := t\<rparr>)) = fst (sessionRepo_Get E k w)"
  by (simp add: sessionRepo_Get_def log_def split: option.splits)

lemma fst_appRepo_Get_trace [simp]:
  "fst (appRepo_Get E k (w\<lparr>trace := t\<rparr>)) = fst (appRepo_Get E k w)"
  by (simp add: appRepo_Get_def log_def split: option.splits)

lemma snd_sessionRepo_Get: "snd (sessionRepo_Get E k w) = log (EvSessionGet k) w"
  by (simp add: sessionRepo_Get_def split: option.splits)

lemma snd_appRepo_Get: "snd (appRepo_Get E k w) = log (EvAppGet k) w"
  by (simp add: appRepo_Get_def split: option.splits)

subsection \<open>Resolving the client\<close>

lemma getClient_no_session_id:
  assumes "\<forall>sid. ctx ''session_id'' = Some (StringValue sid) \<longrightarrow> sid = []"
  shows "getClient E ctx w = (Inl ErrInvalidSession, w)"
  using assms
  by (auto simp: getClient_def ctx_string_def split: option.splits ctx_value.splits)

lemma getClient_with_session_id:
  assumes "ctx ''session_id'' = Some (StringValue sid)" "sid \<noteq> []"
  shows "getClient E ctx w =
           (case fst (sessionRepo_Get E sid w) of
              Inl err \<Rightarrow> (Inl ErrInvalidSession, log (EvSessionGet sid) w)
            | Inr session \<Rightarrow>
                (case fst (appRepo_Get E (Session.InstanceURL session) w) of
                   Inl err \<Rightarrow> Inl err
                 | Inr client \<Rightarrow>
                     Inr \<lparr>Client =
                            \<lparr>Config.Server = App.InstanceURL client,
                             Config.ClientID = App.ClientID client,
                             Config.ClientSecret = App.ClientSecret client,
                             Config.AccessToken = Session.AccessToken session\<rparr>,
                          Session = session\<rparr>,
                 log (EvAppGet (Session.InstanceURL session)) (log (EvSessionGet sid) w)))"
proof -
  obtain r1 w1 where g1: "sessionRepo_Get E sid w = (r1, w1)" by (cases "sessionRepo_Get E sid w")
  have w1: "w1 = log (EvSessionGet sid) w" using snd_sessionRepo_Get[of E sid w] g1 by simp
  show ?thesis
  proof (cases r1)
    case (Inl e)
    then show ?thesis using assms g1 w1 by (simp add: getClient_def ctx_string_def)
  next
    case (Inr s)
    obtain r2 w2 where g2: "appRepo_Get E (Session.InstanceURL s) w1 = (r2, w2)"
      by (cases "appRepo_Get E (Session.InstanceURL s) w1")
    have w2: "w2 = log (EvAppGet (Session.InstanceURL s)) w1"
      using snd_appRepo_Get[of E "Session.InstanceURL s" w1] g2 by simp
    have r2: "r2 = fst (appRepo_Get E (Session.InstanceURL s) w)"
      using g2 w1 by (metis fst_conv fst_appRepo_Get_trace log_def)
    show ?thesis using assms g1 g2 Inr w1 w2 r2
      by (simp add: getClient_def ctx_string_def split: sum.splits)
  qed
qed


text \<open>
  Claim C1, as the code has it. \<open>getClient\<close> fails with \<open>ErrInvalidSession\<close> when the context
  carries no non-empty string under \<^verbatim>\<open>session_id\<close>, and when the session repository fails
  to return a session for that identifier. When the session resolves and the application
  repository fails for the session's instance, \<open>getClient\<close> returns no client and that
  repository's error unchanged, which is \<open>ErrAppNotFound\<close> for a missing application and
  not \<open>ErrInvalidSession\<close>. Otherwise the client carries the application's credentials
  and the session, with its possibly empty access token.
\<close>

theorem getClient_outcomes:
  "((\<forall>k. ctx ''session_id'' = Some (StringValue k) \<longrightarrow> k = []) \<longrightarrow>
      getClient E ctx w = (Inl ErrInvalidSession, w)) \<and>
   (ctx ''session_id'' = Some (StringValue sid) \<and> sid \<noteq> [] \<longrightarrow>
      (\<forall>e. fst (sessionRepo_Get E sid w) = Inl e \<longrightarrow>
           fst (getClient E ctx w) = Inl ErrInvalidSession) \<and>
      (\<forall>s. fst (sessionRepo_Get E sid w) = Inr s \<longrightarrow>
           (\<forall>e. fst (appRepo_Get E (Session.InstanceURL s) w) = Inl e \<longrightarrow>
                fst (getClient E ctx w) = Inl e) \<and>
           (\<forall>a. fst (appRepo_Get E (Session.InstanceURL s) w) = Inr a \<longrightarrow>
                fst (getClient E ctx w) =
                  Inr \<lparr>Client =
                         \<lparr>Config.Server = App.InstanceURL a,
                          Config.ClientID = App.ClientID a,
                          Config.ClientSecret = App.ClientSecret a,
                          Config.AccessToken = Session.AccessToken s\<rparr>,
                       Session = s\<rparr>)))"
proof (intro conjI impI allI)
  assume "\<forall>k. ctx ''session_id'' = Some (StringValue k) \<longrightarrow> k = []"
  then show "getClient E ctx w = (Inl ErrInvalidSession, w)"
    by (rule getClient_no_session_id)
next
  fix e
  assume "ctx ''session_id'' = Some (StringValue sid) \<and> sid \<noteq> []"
    and "fst (sessionRepo_Get E sid w) = Inl e"
  then show "fst (getClient E ctx w) = Inl ErrInvalidSession"
    by (simp add: getClient_with_session_id)
next
  fix s e
  assume "ctx ''session_id'' = Some (StringValue sid) \<and> sid \<noteq> []"
    and "fst (sessionRepo_Get E sid w) = Inr s"
    and "fst (appRepo_Get E (Session.InstanceURL s) w) = Inl e"
  then show "fst (getClient E ctx w) = Inl e"
    by (simp add: getClient_with_session_id)
next
  fix s a
  assume "ctx ''session_id'' = Some (StringValue sid) \<and> sid \<noteq> []"
    and "fst (sessionRepo_Get E sid w) = Inr s"
    and "fst (appRepo_Get E (Session.InstanceURL s) w) = Inr a"
  then show "fst (getClient E ctx w) =
               Inr \<lparr>Client =
                      \<lparr>Config.Server = App.InstanceURL a,
                       Config.ClientID = App.ClientID a,
                       Config.ClientSecret = App.ClientSecret a,
                       Config.AccessToken = Session.AccessToken s\<rparr>,
                    Session = s\<rparr>"
    by (simp add: getClient_with_session_id)
qed

theorem getClient_outcomes_witness:
  "fst (getClient stub_env ctx_empty world_a) = Inl ErrInvalidSession \<and>
   fst (getClient stub_env ctx_unknown world_a) = Inl ErrInvalidSession \<and>
   fst (getClient stub_env ctx_s1 world_noapp) = Inl ErrAppNotFound \<and>
   fst (getClient stub_env ctx_s1 world_a) =
     Inr \<lparr>Client = \<lparr>Config.Server = ''https://a.example'', Config.ClientID = ''cid'',
                     Config.ClientSecret = ''secret'', Config.AccessToken = []\<rparr>,
          Session = session_a\<rparr>"
  using getClient_outcomes [of ctx_empty stub_env world_a]
    getClient_outcomes [of ctx_unknown stub_env world_a "''zz''"]
    getClient_outcomes [of ctx_s1 stub_env world_noapp "''s1''"]
    getClient_outcomes [of ctx_s1 stub_env world_a "''s1''"]
  by (simp add: fixture_defs ctx_defs sessionRepo_Get_def appRepo_Get_def)

text \<open>
  The session \<open>s1\<close> resolves, its instance has no registered application, and the error
  is the registry's \<open>ErrAppNotFound\<close>.
\<close>

theorem getClient_missing_app_counterexample:
  "sessions world_noapp ''s1'' = Some session_a \<and>
   apps world_noapp (Session.InstanceURL session_a) = None \<and>
   fst (getClient stub_env ctx_s1 world_noapp) = Inl ErrAppNotFound \<and>
   fst (getClient stub_env ctx_s1 world_noapp) \<noteq> Inl ErrInvalidSession"
  by (simp add: fixture_defs ctx_defs getClient_def ctx_string_def repo_defs)

subsection \<open>The CSRF check\<close>

text \<open>
  Claim C2, as the code has it. \<open>checkCSRF\<close> succeeds exactly when the context binds
  \<^verbatim>\<open>csrf_token\<close> to a string that equals the session's stored \<open>CSRFToken\<close> byte for byte,
  and fails with \<open>ErrInvalidCSRFToken\<close> in every other case: any mismatch, a value that is
  not a string, no value at all. Emptiness is not tested, so an empty stored token is
  matched by an empty supplied token.
\<close>

theorem checkCSRF_exact_match:
  "checkCSRF ctx c =
     (if ctx ''csrf_token'' = Some (StringValue (Session.CSRFToken (Client.Session c)))
      then None else Some ErrInvalidCSRFToken)"
  by (auto simp: checkCSRF_def ctx_string_def split: option.splits ctx_value.splits)

theorem checkCSRF_exact_match_witness:
  "checkCSRF [''csrf_token'' \<mapsto> StringValue ''T0k''] client_a = None \<and>
   checkCSRF [''csrf_token'' \<mapsto> StringValue ''t0k''] client_a = Some ErrInvalidCSRFToken \<and>
   checkCSRF [''csrf_token'' \<mapsto> StringValue []] client_a = Some ErrInvalidCSRFToken \<and>
   checkCSRF [''csrf_token'' \<mapsto> StringValue ''T0k''] client_notoken = Some ErrInvalidCSRFToken \<and>
   checkCSRF [''csrf_token'' \<mapsto> OtherValue] client_a = Some ErrInvalidCSRFToken \<and>
   checkCSRF Map.empty client_a = Some ErrInvalidCSRFToken"
  using checkCSRF_exact_match [of "[''csrf_token'' \<mapsto> StringValue ''T0k'']" client_a]
    checkCSRF_exact_match [of "[''csrf_token'' \<mapsto> StringValue ''t0k'']" client_a]
    checkCSRF_exact_match [of "[''csrf_token'' \<mapsto> StringValue []]" client_a]
    checkCSRF_exact_match [of "[''csrf_token'' \<mapsto> StringValue ''T0k'']" client_notoken]
    checkCSRF_exact_match [of "[''csrf_token'' \<mapsto> OtherValue]" client_a]
    checkCSRF_exact_match [of Map.empty client_a]
  by (simp add: client_a_def client_notoken_def session_a_def)

text \<open>
  The stored token is empty, that is, absent, and the check succeeds on the empty token
  that a request without the form field supplies.
\<close>

theorem checkCSRF_empty_tokens_counterexample:
  "Session.CSRFToken (Client.Session client_notoken) = [] \<and>
   checkCSRF ctx_empty_token client_notoken = None"
  by (simp add: client_a_def client_notoken_def session_a_def checkCSRF_def ctx_string_def
      ctx_defs)

subsection \<open>The mutating operations\<close>


text \<open>
  Claim C3. For each of \<open>SaveSettings\<close>, \<open>Like\<close>, \<open>UnLike\<close>, \<open>Retweet\<close>, \<open>UnRetweet\<close>,
  \<open>PostTweet\<close>, \<open>Follow\<close> and \<open>UnFollow\<close>: when \<open>getClient\<close> fails, the operation returns
  that error with zero values and the world that \<open>getClient\<close> left; when \<open>getClient\<close>
  succeeds and \<open>checkCSRF\<close> fails, it returns the CSRF error in the same way; in both cases
  the result does not depend on the wrapped operation, which is therefore not invoked.
  Only when both succeed is the wrapped operation invoked, on the resolved client, and its
  result returned as it is.
\<close>

theorem mutating_operations_guarded:
  "(\<forall>e w1. getClient E ctx w = (Inl e, w1) \<longrightarrow>
      authService_SaveSettings E iSave ctx client c settings w = (Some e, w1) \<and>
      authService_Like E iLike ctx client c id1 w = ((0, Some e), w1) \<and>
      authService_UnLike E iUnLike ctx client c id2 w = ((0, Some e), w1) \<and>
      authService_Retweet E iRetweet ctx client c id3 w = ((0, Some e), w1) \<and>
      authService_UnRetweet E iUnRetweet ctx client c id4 w = ((0, Some e), w1) \<and>
      authService_PostTweet E iPost ctx client c content replyToID format visibility isNSFW files w
        = (([], Some e), w1) \<and>
      authService_Follow E iFollow ctx client c id5 w = (Some e, w1) \<and>
      authService_UnFollow E iUnFollow ctx client c id6 w = (Some e, w1)) \<and>
   (\<forall>c1 w1 e. getClient E ctx w = (Inr c1, w1) \<and> checkCSRF ctx c1 = Some e \<longrightarrow>
      authService_SaveSettings E iSave ctx client c settings w = (Some e, w1) \<and>
      authService_Like E iLike ctx client c id1 w = ((0, Some e), w1) \<and>
      authService_UnLike E iUnLike ctx client c id2 w = ((0, Some e), w1) \<and>
      authService_Retweet E iRetweet ctx client c id3 w = ((0, Some e), w1) \<and>
      authService_UnRetweet E iUnRetweet ctx client c id4 w = ((0, Some e), w1) \<and>
      authService_PostTweet E iPost ctx client c content replyToID format visibility isNSFW files w
        = (([], Some e), w1) \<and>
      authService_Follow E iFollow ctx client c id5 w = (Some e, w1) \<and>
      authService_UnFollow E iUnFollow ctx client c id6 w = (Some e, w1)) \<and>
   (\<forall>c1 w1. getClient E ctx w = (Inr c1, w1) \<and> checkCSRF ctx c1 = None \<longrightarrow>
      authService_SaveSettings E iSave ctx client c settings w
        = iSave ctx client (Some c1) settings w1 \<and>
      authService_Like E iLike ctx client c id1 w = iLike ctx client (Some c1) id1 w1 \<and>
      authService_UnLike E iUnLike ctx client c id2 w = iUnLike ctx client (Some c1) id2 w1 \<and>
      authService_Retweet E iRetweet ctx client c id3 w = iRetweet ctx client (Some c1) id3 w1 \<and>
      authService_UnRetweet E iUnRetweet ctx client c id4 w
        = iUnRetweet ctx client (Some c1) id4 w1 \<and>
      authService_PostTweet E iPost ctx client c content replyToID format visibility isNSFW files w
        = iPost ctx client (Some c1) content replyToID format visibility isNSFW files w1 \<and>
      authService_Follow E iFollow ctx client c id5 w = iFollow ctx client (Some c1) id5 w1 \<and>
      authService_UnFollow E iUnFollow ctx client c id6 w
        = iUnFollow ctx client (Some c1) id6 w1)"
  by (simp add: authService_SaveSettings_def authService_Like_def authService_UnLike_def
      authService_Retweet_def authService_UnRetweet_def authService_PostTweet_def
      authService_Follow_def authService_UnFollow_def)



theorem mutating_operations_guarded_witness:
  "authService_Like stub_env stub_count_op ctx_nosession (0::nat) None ''42'' world_a
     = ((0, Some ErrInvalidSession), world_a) \<and>
   authService_PostTweet stub_env stub_PostTweet ctx_badcsrf (0::nat) None
       ''hi'' [] [] ''public'' False [] world_a
     = (([], Some ErrInvalidCSRFToken),
        world_a\<lparr>trace := [EvSessionGet ''s1'', EvAppGet ''https://a.example'']\<rparr>) \<and>
   authService_SaveSettings stub_env stub_SaveSettings ctx_badcsrf (0::nat) None settings_a world_a
     = (Some ErrInvalidCSRFToken,
        world_a\<lparr>trace := [EvSessionGet ''s1'', EvAppGet ''https://a.example'']\<rparr>) \<and>
   authService_Follow stub_env stub_account_op ctx_ok (0::nat) None ''7'' world_a
     = (None,
        world_a\<lparr>trace := [EvSessionGet ''s1'', EvAppGet ''https://a.example'',
                            EvHttpPost ''/accounts/7'' []]\<rparr>)"
proof -
  let ?w1 = "world_a\<lparr>trace := [EvSessionGet ''s1'', EvAppGet ''https://a.example'']\<rparr>"
  have g1: "getClient stub_env ctx_nosession world_a = (Inl ErrInvalidSession, world_a)"
    by (simp add: fixture_defs ctx_defs getClient_def ctx_string_def)
  have g2: "getClient stub_env ctx_badcsrf world_a = (Inr client_a, ?w1)"
    by (simp add: fixture_defs ctx_defs client_a_def getClient_def ctx_string_def repo_defs)
  have g3: "getClient stub_env ctx_ok world_a = (Inr client_a, ?w1)"
    by (simp add: fixture_defs ctx_defs client_a_def getClient_def ctx_string_def repo_defs)
  have c2: "checkCSRF ctx_badcsrf client_a = Some ErrInvalidCSRFToken"
    by (simp add: ctx_defs client_a_def session_a_def checkCSRF_def ctx_string_def)
  have c3: "checkCSRF ctx_ok client_a = None"
    by (simp add: ctx_defs client_a_def session_a_def checkCSRF_def ctx_string_def)
  note fail1 = mutating_operations_guarded [where E = stub_env and ctx = ctx_nosession
      and w = world_a and iLike = stub_count_op and client = "0::nat" and c = None
      and ?id1.0 = "''42''", THEN conjunct1, rule_format, OF g1]
  note fail2 = mutating_operations_guarded [where E = stub_env and ctx = ctx_badcsrf
      and w = world_a and iPost = stub_PostTweet and iSave = stub_SaveSettings
      and client = "0::nat" and c = None and content = "''hi''" and replyToID = "[]"
      and format = "[]" and visibility = "''public''" and isNSFW = False and files = "[]"
      and settings = settings_a, THEN conjunct2, THEN conjunct1, rule_format, OF conjI [OF g2 c2]]
  note pass3 = mutating_operations_guarded [where E = stub_env and ctx = ctx_ok
      and w = world_a and iFollow = stub_account_op and client = "0::nat" and c = None
      and ?id5.0 = "''7''", THEN conjunct2, THEN conjunct2, rule_format, OF conjI [OF g3 c3]]
  have "authService_Follow stub_env stub_account_op ctx_ok (0::nat) None ''7'' world_a
          = stub_account_op ctx_ok 0 (Some client_a) ''7'' ?w1"
    by (rule pass3 [THEN conjunct2, THEN conjunct2, THEN conjunct2, THEN conjunct2,
          THEN conjunct2, THEN conjunct2, THEN conjunct1])
  then have "authService_Follow stub_env stub_account_op ctx_ok (0::nat) None ''7'' world_a
     = (None,
        world_a\<lparr>trace := [EvSessionGet ''s1'', EvAppGet ''https://a.example'',
                            EvHttpPost ''/accounts/7'' []]\<rparr>)"
    by (simp add: stub_account_op_def log_def)
  with fail1 [THEN conjunct2, THEN conjunct1]
    fail2 [THEN conjunct2, THEN conjunct2, THEN conjunct2, THEN conjunct2, THEN conjunct2,
      THEN conjunct1]
    fail2 [THEN conjunct1]
  show ?thesis by simp
qed

subsection \<open>Completing the sign-in with an empty authorization code\<close>

lemma getClient_world:
  "\<exists>evs. snd (getClient E ctx w) = w\<lparr>trace := trace w @ evs\<rparr> \<and> list_all is_read evs"
proof (cases "\<exists>sid. ctx ''session_id'' = Some (StringValue sid) \<and> sid \<noteq> []")
  case True
  then obtain sid where sid: "ctx ''session_id'' = Some (StringValue sid)" "sid \<noteq> []"
    by blast
  show ?thesis
  proof (cases "fst (sessionRepo_Get E sid w)")
    case (Inl e)
    then have "snd (getClient E ctx w) = w\<lparr>trace := trace w @ [EvSessionGet sid]\<rparr>"
      using sid by (simp add: getClient_with_session_id log_def)
    moreover have "list_all is_read [EvSessionGet sid]" by simp
    ultimately show ?thesis by blast
  next
    case (Inr s)
    then have "snd (getClient E ctx w) =
                 w\<lparr>trace := trace w @ [EvSessionGet sid, EvAppGet (Session.InstanceURL s)]\<rparr>"
      using sid by (simp add: getClient_with_session_id log_def)
    moreover have "list_all is_read [EvSessionGet sid, EvAppGet (Session.InstanceURL s)]"
      by simp
    ultimately show ?thesis by blast
  qed
next
  case False
  then have "getClient E ctx w = (Inl ErrInvalidSession, w)"
    by (intro getClient_no_session_id) auto
  then have "snd (getClient E ctx w) = w\<lparr>trace := trace w @ []\<rparr>" by simp
  moreover have "list_all is_read []" by simp
  ultimately show ?thesis by blast
qed

lemma service_GetUserToken_empty_code:
  "service_GetUserToken E svc ctx sessionID c [] w = (([], Some ErrInvalidArgument), w)"
  by (simp add: service_GetUserToken_def)

lemma authService_GetUserToken_empty_code:
  "authService_GetUserToken E (service_GetUserToken E svc) ctx sessionID c [] w =
     (([], Some (case fst (getClient E ctx w) of
                   Inl err \<Rightarrow> err
                 | Inr c1 \<Rightarrow> ErrInvalidArgument)),
      snd (getClient E ctx w))"
  by (cases "getClient E ctx w")
    (simp add: authService_GetUserToken_def service_GetUserToken_empty_code split: sum.splits)

text \<open>
  Claim C5, as the code has it. \<open>service.GetUserToken\<close> with an empty code fails with
  \<open>ErrInvalidArgument\<close> at once and leaves the world, trace included, as it was: no
  repository access and no network call. The gateway's \<open>GetUserToken\<close> resolves the session
  first, so with an empty code it returns the error of \<open>getClient\<close> when resolution fails
  and \<open>ErrInvalidArgument\<close> only when resolution succeeds; in both cases it has done
  nothing but the repository reads of \<open>getClient\<close>.
\<close>

theorem GetUserToken_empty_code:
  "service_GetUserToken E svc ctx sessionID c [] w = (([], Some ErrInvalidArgument), w) \<and>
   fst (authService_GetUserToken E (service_GetUserToken E svc) ctx sessionID c [] w) =
     ([], Some (case fst (getClient E ctx w) of
                  Inl err \<Rightarrow> err
                | Inr c1 \<Rightarrow> ErrInvalidArgument)) \<and>
   (\<exists>evs. snd (authService_GetUserToken E (service_GetUserToken E svc) ctx sessionID c [] w)
            = w\<lparr>trace := trace w @ evs\<rparr> \<and> list_all is_read evs)"
  using getClient_world [of E ctx w]
  by (simp add: service_GetUserToken_empty_code authService_GetUserToken_empty_code)

theorem GetUserToken_empty_code_witness:
  "service_GetUserToken stub_env svc_a ctx_ok ''s1'' None [] world_a
     = (([], Some ErrInvalidArgument), world_a) \<and>
   fst (authService_GetUserToken stub_env (service_GetUserToken stub_env svc_a)
          ctx_ok [] None [] world_a) = ([], Some ErrInvalidArgument) \<and>
   fst (authService_GetUserToken stub_env (service_GetUserToken stub_env svc_a)
          ctx_empty [] None [] world_a) = ([], Some ErrInvalidSession)"
  using GetUserToken_empty_code [of stub_env svc_a ctx_ok "''s1''" None world_a]
    GetUserToken_empty_code [of stub_env svc_a ctx_ok "[]" None world_a]
    GetUserToken_empty_code [of stub_env svc_a ctx_empty "[]" None world_a]
  by (simp add: getClient_def ctx_string_def ctx_defs fixture_defs repo_defs)

text \<open>
  An empty code on a request without a session cookie: the gateway answers
  \<open>ErrInvalidSession\<close>, not \<open>ErrInvalidArgument\<close>.
\<close>

theorem GetUserToken_empty_code_counterexample:
  "authService_GetUserToken stub_env (service_GetUserToken stub_env svc_a)
     ctx_empty [] None [] world_a = (([], Some ErrInvalidSession), world_a)"
  by (simp add: authService_GetUserToken_def getClient_def ctx_string_def ctx_defs)

subsection \<open>Beginning the sign-in\<close>

lemmas GetAuthUrl_defs = service_GetAuthUrl_def GetAuthUrl_redirect_def util_NewSessionId_def
  mastodon_RegisterApp_def

text \<open>
  Claim C7. When the application repository already holds an application for the
  normalized instance (and its lookup does not wrongly report it missing), \<open>GetAuthUrl\<close>
  leaves the application repository as it was, and all it does to the outside is to add
  the new session and, if that succeeded, to look the application up: there is no
  registration with the remote instance and no \<open>Add\<close> to the application repository. The
  repository holds one application per instance URL, being a map from instance URLs.
\<close>

theorem GetAuthUrl_registered_no_registration:
  assumes "n = (if strings_HasPrefix instance ''https://'' then instance
                else ''https://'' @ instance)"
    and "s = \<lparr>ID = NewSessionId E (rng w), InstanceURL = n, AccessToken = [], CSRFToken = []\<rparr>"
    and "appGetFault E n \<noteq> Some ErrAppNotFound"
    and "apps w n = Some app"
  shows "apps (snd (service_GetAuthUrl E svc ctx instance w)) = apps w \<and>
         trace (snd (service_GetAuthUrl E svc ctx instance w)) =
           trace w @ (if sessionAddFault E s = None then [EvSessionAdd s, EvAppGet n]
                      else [EvSessionAdd s])"
  using assms
  by (cases "strings_HasPrefix instance ''https://''")
    (simp_all add: GetAuthUrl_defs repo_defs Let_def split: option.splits)

theorem GetAuthUrl_registered_no_registration_witness:
  "apps (snd (service_GetAuthUrl stub_env svc_a Map.empty ''a.example'' world_a)) = apps world_a \<and>
   trace (snd (service_GetAuthUrl stub_env svc_a Map.empty ''a.example'' world_a)) =
     [EvSessionAdd \<lparr>ID = ''sid-'', InstanceURL = ''https://a.example'',
                    AccessToken = [], CSRFToken = []\<rparr>,
      EvAppGet ''https://a.example'']"
  using GetAuthUrl_registered_no_registration [of "''https://a.example''" "''a.example''"
      "\<lparr>ID = ''sid-'', InstanceURL = ''https://a.example'', AccessToken = [], CSRFToken = []\<rparr>"
      stub_env world_a app_a svc_a Map.empty]
  by (simp add: fixture_defs strings_HasPrefix_def)

text \<open>
  Claim C8. \<open>GetAuthUrl\<close> stores the new session, with empty access token, before it looks
  the application up and before it attempts the registration. When the instance has no
  application yet and the registration fails, the call returns the registration's error
  (with the new session identifier and no redirect URL), and the session stays in the
  session repository: the world after the call holds it, and nothing follows the
  registration attempt in the trace.
\<close>

theorem GetAuthUrl_registration_failure_keeps_session:
  assumes "n = (if strings_HasPrefix instance ''https://'' then instance
                else ''https://'' @ instance)"
    and "s = \<lparr>ID = NewSessionId E (rng w), InstanceURL = n, AccessToken = [], CSRFToken = []\<rparr>"
    and "cfg = \<lparr>AppConfig.Server = n, ClientName = clientName svc, Scopes = clientScope svc,
                Website = clientWebsite svc,
                RedirectURIs = clientWebsite svc @ ''/oauth_callback''\<rparr>"
    and "sessionAddFault E s = None"
    and "appGetFault E n = None"
    and "apps w n = None"
    and "RegisterApp E cfg = Inl e"
  shows "service_GetAuthUrl E svc ctx instance w =
           (([], Session.ID s, Some e),
            w\<lparr>sessions := (sessions w)(Session.ID s \<mapsto> s),
              rng := Suc (rng w),
              trace := trace w @ [EvSessionAdd s, EvAppGet n, EvRegisterApp cfg]\<rparr>)"
  using assms
  by (cases "strings_HasPrefix instance ''https://''")
    (simp_all add: GetAuthUrl_defs repo_defs Let_def)

theorem GetAuthUrl_registration_failure_keeps_session_witness:
  "service_GetAuthUrl refusing_env svc_a Map.empty ''b.example'' world_a =
     (([], ''sid-'', Some (ErrOther ''connection refused'')),
      world_a\<lparr>sessions := (sessions world_a)(''sid-'' \<mapsto>
                  \<lparr>ID = ''sid-'', InstanceURL = ''https://b.example'',
                   AccessToken = [], CSRFToken = []\<rparr>),
              rng := Suc 0,
              trace := [EvSessionAdd \<lparr>ID = ''sid-'', InstanceURL = ''https://b.example'',
                                     AccessToken = [], CSRFToken = []\<rparr>,
                        EvAppGet ''https://b.example'',
                        EvRegisterApp
                          \<lparr>AppConfig.Server = ''https://b.example'', ClientName = ''bloat'',
                           Scopes = ''read write follow'', Website = ''https://bloat.example'',
                           RedirectURIs = ''https://bloat.example/oauth_callback''\<rparr>]\<rparr>)"
  using GetAuthUrl_registration_failure_keeps_session [of "''https://b.example''" "''b.example''"
      "\<lparr>ID = ''sid-'', InstanceURL = ''https://b.example'', AccessToken = [], CSRFToken = []\<rparr>"
      refusing_env world_a
      "\<lparr>AppConfig.Server = ''https://b.example'', ClientName = ''bloat'',
        Scopes = ''read write follow'', Website = ''https://bloat.example'',
        RedirectURIs = ''https://bloat.example/oauth_callback''\<rparr>"
      svc_a "ErrOther ''connection refused''" Map.empty]
  by (simp add: fixture_defs refusing_env_def svc_a_def strings_HasPrefix_def)

subsection \<open>What \<open>path.Join\<close> does to a URL\<close>

lemma split_slash_nonempty: "split_slash s \<noteq> []"
  by (induction s) (auto split: list.splits)

lemma split_slash_no_slash: "x \<in> set (split_slash s) \<Longrightarrow> CHR ''/'' \<notin> set x"
proof (induction s arbitrary: x)
  case Nil
  then show ?case by simp
next
  case (Cons c cs)
  show ?case
  proof (cases "c = CHR ''/''")
    case True
    with Cons show ?thesis by auto
  next
    case False
    obtain y ys where ys: "split_slash cs = y # ys"
      using split_slash_nonempty [of cs] by (cases "split_slash cs") auto
    with Cons False show ?thesis by auto
  qed
qed

lemma clean_step_proper:
  assumes "proper_elems out" "CHR ''/'' \<notin> set elem"
  shows "proper_elems (clean_step rooted out elem)"
  using assms
  by (auto simp: proper_elems_def clean_step_def dest: in_set_butlastD)

lemma foldl_clean_step_proper:
  assumes "proper_elems out" "\<forall>x \<in> set xs. CHR ''/'' \<notin> set x"
  shows "proper_elems (foldl (clean_step rooted) out xs)"
  using assms
proof (induction xs arbitrary: out)
  case Nil
  then show ?case by simp
next
  case (Cons x xs)
  then show ?case by (simp add: clean_step_proper)
qed

lemma adjacent_slashes_Cons:
  "adjacent_slashes (a # zs) =
     ((a = CHR ''/'' \<and> zs \<noteq> [] \<and> hd zs = CHR ''/'') \<or> adjacent_slashes zs)"
  by (cases zs) auto

lemma adjacent_slashes_append:
  "CHR ''/'' \<notin> set x \<Longrightarrow> adjacent_slashes (x @ ys) = adjacent_slashes ys"
  by (induction x) (auto simp: adjacent_slashes_Cons)

lemma join_slash_proper:
  assumes "proper_elems out"
  shows "\<not> adjacent_slashes (join_slash out) \<and>
         (join_slash out = [] \<or> hd (join_slash out) \<noteq> CHR ''/'')"
  using assms
proof (induction out rule: join_slash.induct)
  case 1
  then show ?case by simp
next
  case (2 x)
  then show ?case
    using adjacent_slashes_append [of x "[]"]
    by (cases x) (auto simp: proper_elems_def)
next
  case (3 x y ys)
  then have x: "x \<noteq> []" "CHR ''/'' \<notin> set x" and rest: "proper_elems (y # ys)"
    by (auto simp: proper_elems_def)
  from 3 rest have ih: "\<not> adjacent_slashes (join_slash (y # ys))"
    "join_slash (y # ys) = [] \<or> hd (join_slash (y # ys)) \<noteq> CHR ''/''"
    by auto
  have "\<not> adjacent_slashes (CHR ''/'' # join_slash (y # ys))"
    using ih by (auto simp: adjacent_slashes_Cons)
  then have "\<not> adjacent_slashes (x @ CHR ''/'' # join_slash (y # ys))"
    using x by (simp add: adjacent_slashes_append)
  moreover have "hd (x @ CHR ''/'' # join_slash (y # ys)) \<noteq> CHR ''/''"
    using x by (cases x) auto
  ultimately show ?case by simp
qed

lemma path_Clean_no_adjacent_slashes: "\<not> adjacent_slashes (path_Clean p)"
proof (cases p)
  case Nil
  then show ?thesis by (simp add: path_Clean_def)
next
  case (Cons c cs)
  let ?out = "foldl (clean_step (c = CHR ''/'')) [] (split_slash p)"
  have "proper_elems ?out"
    by (rule foldl_clean_step_proper) (auto simp: proper_elems_def split_slash_no_slash)
  then have j: "\<not> adjacent_slashes (join_slash ?out)"
    "join_slash ?out = [] \<or> hd (join_slash ?out) \<noteq> CHR ''/''"
    using join_slash_proper by blast+
  then have "\<not> adjacent_slashes (CHR ''/'' # join_slash ?out)"
    by (auto simp: adjacent_slashes_Cons)
  with j Cons show ?thesis
    by (auto simp: path_Clean_def Let_def)
qed

lemma path_Join_no_adjacent_slashes: "\<not> adjacent_slashes (path_Join elem)"
  by (simp add: path_Join_def path_Clean_no_adjacent_slashes split: list.splits)

lemma https_prefix_adjacent_slashes:
  assumes "strings_HasPrefix s ''https://''"
  shows "adjacent_slashes s"
proof -
  have "take (length ''https://'') s = ''https://''"
    using assms unfolding strings_HasPrefix_def by blast
  then have "s = ''https://'' @ drop (length ''https://'') s"
    using append_take_drop_id [of "length ''https://''" s] by metis
  then obtain r where "s = ''https://'' @ r" ..
  then show ?thesis by simp
qed

lemma path_Join_not_https: "\<not> strings_HasPrefix (path_Join elem) ''https://''"
  using https_prefix_adjacent_slashes path_Join_no_adjacent_slashes by blast

subsection \<open>Normalization of the instance\<close>

lemma GetAuthUrl_success:
  assumes "n = (if strings_HasPrefix instance ''https://'' then instance
                else ''https://'' @ instance)"
    and "service_GetAuthUrl E svc ctx instance w = ((redirectUrl, sessionID, None), w')"
  shows "sessionID = NewSessionId E (rng w)"
    and "sessions w' = (sessions w)(sessionID \<mapsto>
           \<lparr>ID = sessionID, InstanceURL = n, AccessToken = [], CSRFToken = []\<rparr>)"
    and "\<exists>app. apps w' n = Some app \<and> (apps w' = apps w \<or> apps w' = (apps w)(n \<mapsto> app)) \<and>
           redirectUrl =
             url_String E
               \<lparr>Raw = path_Join [n, ''/oauth/authorize''],
                RawQuery =
                  [(''client_id'', App.ClientID app),
                   (''redirect_uri'', clientWebsite svc @ ''/oauth_callback''),
                   (''response_type'', ''code''),
                   (''scope'', ''read write follow'')]\<rparr>"
  using assms
  by (cases "strings_HasPrefix instance ''https://''";
      auto simp: GetAuthUrl_defs repo_defs Let_def
           split: option.splits sum.splits if_splits)+

lemma normalized_has_https:
  "strings_HasPrefix (if strings_HasPrefix instance ''https://'' then instance
                      else ''https://'' @ instance) ''https://''"
  by (simp add: strings_HasPrefix_def)

text \<open>
  Claim C6. An instance given without the \<^verbatim>\<open>https://\<close> prefix is normalized by prefixing
  it, and a successful \<open>GetAuthUrl\<close> has stored the session with the normalized instance
  and holds the application under the normalized instance. The authorization URL,
  however, is parsed from \<open>path.Join(instance, "/oauth/authorize")\<close>, and \<open>path.Join\<close>
  cleans its result, so that the two slashes after the scheme become one: the text that
  becomes the authorization URL never starts with \<^verbatim>\<open>https://\<close>, whereas the normalized
  instance always does.
\<close>

theorem GetAuthUrl_authorize_url_loses_normal_form:
  assumes "n = (if strings_HasPrefix instance ''https://'' then instance
                else ''https://'' @ instance)"
    and "service_GetAuthUrl E svc ctx instance w = ((redirectUrl, sessionID, None), w')"
  shows "strings_HasPrefix n ''https://'' \<and>
         sessions w' sessionID =
           Some \<lparr>ID = sessionID, InstanceURL = n, AccessToken = [], CSRFToken = []\<rparr> \<and>
         (\<exists>app. apps w' n = Some app \<and>
            redirectUrl =
              url_String E
                \<lparr>Raw = path_Join [n, ''/oauth/authorize''],
                 RawQuery =
                   [(''client_id'', App.ClientID app),
                    (''redirect_uri'', clientWebsite svc @ ''/oauth_callback''),
                    (''response_type'', ''code''),
                    (''scope'', ''read write follow'')]\<rparr>) \<and>
         \<not> strings_HasPrefix (path_Join [n, ''/oauth/authorize'']) ''https://''"
proof -
  have "strings_HasPrefix n ''https://''"
    using assms(1) normalized_has_https by simp
  moreover have "sessions w' sessionID =
      Some \<lparr>ID = sessionID, InstanceURL = n, AccessToken = [], CSRFToken = []\<rparr>"
    using GetAuthUrl_success(2) [OF assms] by simp
  moreover have "\<exists>app. apps w' n = Some app \<and>
            redirectUrl =
              url_String E
                \<lparr>Raw = path_Join [n, ''/oauth/authorize''],
                 RawQuery =
                   [(''client_id'', App.ClientID app),
                    (''redirect_uri'', clientWebsite svc @ ''/oauth_callback''),
                    (''response_type'', ''code''),
                    (''scope'', ''read write follow'')]\<rparr>"
    using GetAuthUrl_success(3) [OF assms] by blast
  ultimately show ?thesis
    using path_Join_not_https by blast
qed

lemma GetAuthUrl_sub_example_org:
  "service_GetAuthUrl stub_env svc_a Map.empty ''sub.example.org'' empty_world =
     ((''https:/sub.example.org/oauth/authorize?client_id=cid&redirect_uri=https://bloat.example/oauth_callback&response_type=code&scope=read write follow&'',
       ''sid-'', None),
      \<lparr>sessions = [''sid-'' \<mapsto> \<lparr>ID = ''sid-'', InstanceURL = ''https://sub.example.org'',
                                  AccessToken = [], CSRFToken = []\<rparr>],
       apps = [''https://sub.example.org'' \<mapsto>
                 \<lparr>App.InstanceURL = ''https://sub.example.org'', App.ClientID = ''cid'',
                  App.ClientSecret = ''secret''\<rparr>],
       rng = Suc 0,
       trace = [EvSessionAdd \<lparr>ID = ''sid-'', InstanceURL = ''https://sub.example.org'',
                              AccessToken = [], CSRFToken = []\<rparr>,
                EvAppGet ''https://sub.example.org'',
                EvRegisterApp
                  \<lparr>AppConfig.Server = ''https://sub.example.org'', ClientName = ''bloat'',
                   Scopes = ''read write follow'', Website = ''https://bloat.example'',
                   RedirectURIs = ''https://bloat.example/oauth_callback''\<rparr>,
                EvAppAdd \<lparr>App.InstanceURL = ''https://sub.example.org'', App.ClientID = ''cid'',
                          App.ClientSecret = ''secret''\<rparr>]\<rparr>)"
  by (simp add: GetAuthUrl_defs repo_defs Let_def fixture_defs svc_a_def strings_HasPrefix_def
      path_Join_def path_Clean_def clean_step_def stub_url_String_def)

theorem GetAuthUrl_authorize_url_loses_normal_form_witness:
  "strings_HasPrefix ''https://sub.example.org'' ''https://'' \<and>
   path_Join [''https://sub.example.org'', ''/oauth/authorize'']
     = ''https:/sub.example.org/oauth/authorize'' \<and>
   \<not> strings_HasPrefix (path_Join [''https://sub.example.org'', ''/oauth/authorize''])
        ''https://'' \<and>
   fst (fst (service_GetAuthUrl stub_env svc_a Map.empty ''sub.example.org'' empty_world))
     = ''https:/sub.example.org/oauth/authorize?client_id=cid&redirect_uri=https://bloat.example/oauth_callback&response_type=code&scope=read write follow&''"
proof -
  have n: "''https://sub.example.org'' =
             (if strings_HasPrefix ''sub.example.org'' ''https://'' then ''sub.example.org''
              else ''https://'' @ ''sub.example.org'')"
    by (simp add: strings_HasPrefix_def)
  have "path_Join [''https://sub.example.org'', ''/oauth/authorize'']
          = ''https:/sub.example.org/oauth/authorize''"
    by (simp add: path_Join_def path_Clean_def clean_step_def)
  with GetAuthUrl_authorize_url_loses_normal_form [OF n GetAuthUrl_sub_example_org]
    GetAuthUrl_sub_example_org
  show ?thesis by simp
qed

subsection \<open>Completing the sign-in\<close>

lemma getClient_Inr:
  assumes "getClient E ctx w = (Inr c1, w1)"
  shows "\<exists>sid app. ctx ''session_id'' = Some (StringValue sid) \<and> sid \<noteq> [] \<and>
           sessionGetFault E sid = None \<and> sessions w sid = Some (Client.Session c1) \<and>
           appGetFault E (Session.InstanceURL (Client.Session c1)) = None \<and>
           apps w (Session.InstanceURL (Client.Session c1)) = Some app \<and>
           w1 = w\<lparr>trace := trace w @ [EvSessionGet sid,
                                       EvAppGet (Session.InstanceURL (Client.Session c1))]\<rparr>"
proof (cases "\<exists>sid. ctx ''session_id'' = Some (StringValue sid) \<and> sid \<noteq> []")
  case False
  then have "getClient E ctx w = (Inl ErrInvalidSession, w)"
    by (intro getClient_no_session_id) auto
  with assms show ?thesis by simp
next
  case True
  then obtain sid where sid: "ctx ''session_id'' = Some (StringValue sid)" "sid \<noteq> []"
    by blast
  show ?thesis
    using assms sid
    by (auto simp: getClient_with_session_id [where ctx = ctx and sid = sid] repo_defs
             split: sum.splits option.splits)
qed

lemma service_GetUserToken_reads_only:
  "sessions (snd (service_GetUserToken E svc ctx sessionID c code w)) = sessions w \<and>
   apps (snd (service_GetUserToken E svc ctx sessionID c code w)) = apps w \<and>
   rng (snd (service_GetUserToken E svc ctx sessionID c code w)) = rng w"
  by (simp add: service_GetUserToken_def net_http_Post_def repo_defs
      split: option.splits sum.splits)

text \<open>
  Claim C9. The gateway's \<open>GetUserToken\<close> gives the same result whatever \<open>sessionID\<close> and
  client the caller passes. A failure of \<open>getClient\<close> on the context is returned as it is;
  otherwise the wrapped \<open>GetUserToken\<close> is invoked with the \<open>ID\<close> of the session that
  \<open>getClient\<close> resolved from the context and with the resolved client, and the token it
  returns is the token the gateway returns.
\<close>

theorem GetUserToken_ignores_sessionID_and_client:
  "authService_GetUserToken E inner ctx sessionID c code w
     = authService_GetUserToken E inner ctx sessionID' c' code w \<and>
   (\<forall>e w1. getClient E ctx w = (Inl e, w1) \<longrightarrow>
      authService_GetUserToken E inner ctx sessionID c code w = (([], Some e), w1)) \<and>
   (\<forall>c1 w1. getClient E ctx w = (Inr c1, w1) \<longrightarrow>
      fst (fst (authService_GetUserToken E inner ctx sessionID c code w))
        = fst (fst (inner ctx (Session.ID (Client.Session c1)) (Some c1) code w1)))"
  by (auto simp: authService_GetUserToken_def split: prod.splits option.splits)

theorem GetUserToken_ignores_sessionID_and_client_witness:
  "authService_GetUserToken stub_env (service_GetUserToken stub_env svc_a)
       ctx_ok ''someone-else'' (Some client_notoken) ''code-1'' world_a
     = authService_GetUserToken stub_env (service_GetUserToken stub_env svc_a)
         ctx_ok [] None ''code-1'' world_a \<and>
   authService_GetUserToken stub_env (service_GetUserToken stub_env svc_a)
       ctx_nosession ''s1'' (Some client_a) ''code-1'' world_a
     = (([], Some ErrInvalidSession), world_a) \<and>
   fst (fst (authService_GetUserToken stub_env (service_GetUserToken stub_env svc_a)
       ctx_ok ''someone-else'' (Some client_notoken) ''code-1'' world_a)) = ''tok-1''"
proof -
  let ?w1 = "world_a\<lparr>trace := [EvSessionGet ''s1'', EvAppGet ''https://a.example'']\<rparr>"
  note inst = GetUserToken_ignores_sessionID_and_client [where E = stub_env
      and inner = "service_GetUserToken stub_env svc_a" and w = world_a and code = "''code-1''"]
  have g1: "getClient stub_env ctx_nosession world_a = (Inl ErrInvalidSession, world_a)"
    by (simp add: fixture_defs ctx_defs getClient_def ctx_string_def)
  have g3: "getClient stub_env ctx_ok world_a = (Inr client_a, ?w1)"
    by (simp add: fixture_defs ctx_defs client_a_def getClient_def ctx_string_def repo_defs)
  have inner: "fst (fst (service_GetUserToken stub_env svc_a ctx_ok
                  (Session.ID (Client.Session client_a)) (Some client_a) ''code-1'' ?w1))
                = ''tok-1''"
    by (simp add: service_GetUserToken_def net_http_Post_def repo_defs fixture_defs
        client_a_def)
  show ?thesis
    using inst [where ctx = ctx_ok and sessionID = "''someone-else''"
        and c = "Some client_notoken" and sessionID' = "[]" and c' = None, THEN conjunct1]
      inst [where ctx = ctx_nosession and sessionID = "''s1''" and c = "Some client_a",
        THEN conjunct2, THEN conjunct1, rule_format, OF g1]
      inst [where ctx = ctx_ok and sessionID = "''someone-else''"
        and c = "Some client_notoken", THEN conjunct2, THEN conjunct2, rule_format, OF g3]
      inner
    by simp
qed

subsection \<open>What a completed sign-in changes\<close>

lemma wf_sessions_empty_world: "wf_sessions empty_world"
  by (simp add: wf_sessions_def empty_world_def)

lemma sessionRepo_Add_wf:
  "wf_sessions w \<Longrightarrow> wf_sessions (snd (sessionRepo_Add E s w))"
  by (auto simp: wf_sessions_def repo_defs split: option.splits)

lemma service_GetAuthUrl_wf:
  assumes "wf_sessions w"
  shows "wf_sessions (snd (service_GetAuthUrl E svc ctx instance w))"
  using assms
  by (cases "strings_HasPrefix instance ''https://''")
    (auto simp: wf_sessions_def GetAuthUrl_defs repo_defs Let_def
          split: option.splits sum.splits if_splits)

lemma authService_GetUserToken_success:
  assumes "authService_GetUserToken E (service_GetUserToken E svc) ctx sessionID c code w
             = ((token, None), w')"
  shows "\<exists>sid s. ctx ''session_id'' = Some (StringValue sid) \<and> sid \<noteq> [] \<and>
           sessions w sid = Some s \<and>
           sessions w' = (sessions w)(Session.ID s \<mapsto> s\<lparr>Session.AccessToken := token\<rparr>) \<and>
           apps w' = apps w \<and> rng w' = rng w"
proof -
  obtain r1 w1 where g: "getClient E ctx w = (r1, w1)"
    by (cases "getClient E ctx w")
  show ?thesis
  proof (cases r1)
    case (Inl e)
    with assms g show ?thesis by (simp add: authService_GetUserToken_def)
  next
    case (Inr c1)
    from getClient_Inr [OF g [unfolded Inr]]
    obtain sid where sid: "ctx ''session_id'' = Some (StringValue sid)" "sid \<noteq> []"
        "sessions w sid = Some (Client.Session c1)"
      and w1: "sessions w1 = sessions w" "apps w1 = apps w" "rng w1 = rng w"
      by auto
    let ?inner = "service_GetUserToken E svc ctx (Session.ID (Client.Session c1)) (Some c1) code w1"
    obtain t2 e2 w2 where i: "?inner = ((t2, e2), w2)"
      by (metis prod.exhaust)
    have w2: "sessions w2 = sessions w" "apps w2 = apps w" "rng w2 = rng w"
      using service_GetUserToken_reads_only
        [of E svc ctx "Session.ID (Client.Session c1)" "Some c1" code w1] i w1
      by simp_all
    from assms g Inr i have "e2 = None" "t2 = token"
      by (auto simp: authService_GetUserToken_def split: option.splits prod.splits)
    with assms g Inr i
    have "sessionRepo_Add E ((Client.Session c1)\<lparr>Session.AccessToken := token\<rparr>) w2
            = (None, w')"
      by (auto simp: authService_GetUserToken_def split: option.splits prod.splits)
    then have "sessions w' = (sessions w2)(Session.ID (Client.Session c1) \<mapsto>
                   (Client.Session c1)\<lparr>Session.AccessToken := token\<rparr>)"
        "apps w' = apps w2" "rng w' = rng w2"
      by (auto simp: repo_defs split: option.splits)
    with sid w2 show ?thesis by auto
  qed
qed

text \<open>
  Claim C10. In a session repository that stores every session under its own \<open>ID\<close>, a
  successful \<open>GetUserToken\<close> of the gateway (over \<open>service.GetUserToken\<close>) changes the
  repositories in one place only: the session under the context's session identifier is
  replaced by the same record with \<open>AccessToken\<close> set to the returned token, so that its
  \<open>ID\<close>, \<open>InstanceURL\<close> and \<open>CSRFToken\<close> are as before; every other session and the whole
  application repository are unchanged.
\<close>

theorem GetUserToken_frame:
  assumes "wf_sessions w"
    and "authService_GetUserToken E (service_GetUserToken E svc) ctx sessionID c code w
           = ((token, None), w')"
  shows "\<exists>sid s s'. ctx ''session_id'' = Some (StringValue sid) \<and>
           sessions w sid = Some s \<and> sessions w' sid = Some s' \<and>
           s' = s\<lparr>Session.AccessToken := token\<rparr> \<and>
           Session.ID s' = Session.ID s \<and>
           Session.InstanceURL s' = Session.InstanceURL s \<and>
           Session.CSRFToken s' = Session.CSRFToken s \<and>
           Session.AccessToken s' = token \<and>
           (\<forall>k. k \<noteq> sid \<longrightarrow> sessions w' k = sessions w k) \<and>
           apps w' = apps w"
proof -
  from authService_GetUserToken_success [OF assms(2)]
  obtain sid s where sid: "ctx ''session_id'' = Some (StringValue sid)"
      "sessions w sid = Some s"
      "sessions w' = (sessions w)(Session.ID s \<mapsto> s\<lparr>Session.AccessToken := token\<rparr>)"
      "apps w' = apps w"
    by blast
  from assms(1) sid(2) have "Session.ID s = sid"
    by (simp add: wf_sessions_def)
  with sid show ?thesis by simp
qed

lemma GetUserToken_world_a:
  "authService_GetUserToken stub_env (service_GetUserToken stub_env svc_a)
       ctx_ok [] None ''code-1'' world_a
     = ((''tok-1'', None),
        world_a\<lparr>sessions := [''s1'' \<mapsto> session_a\<lparr>Session.AccessToken := ''tok-1''\<rparr>],
                trace := [EvSessionGet ''s1'', EvAppGet ''https://a.example'',
                          EvSessionGet ''s1'', EvAppGet ''https://a.example'',
                          EvHttpPost ''https://a.example/oauth/token''
                            [(''client_id'', ''cid''), (''client_secret'', ''secret''),
                             (''code'', ''code-1''), (''grant_type'', ''authorization_code''),
                             (''redirect_uri'', ''https://bloat.example/oauth_callback'')],
                          EvSessionAdd (session_a\<lparr>Session.AccessToken := ''tok-1''\<rparr>)]\<rparr>)"
  by (simp add: authService_GetUserToken_def service_GetUserToken_def getClient_def
      ctx_string_def net_http_Post_def repo_defs fixture_defs ctx_defs svc_a_def)

theorem GetUserToken_frame_witness:
  "wf_sessions world_a \<and>
   sessions (snd (authService_GetUserToken stub_env (service_GetUserToken stub_env svc_a)
                    ctx_ok [] None ''code-1'' world_a)) ''s1''
     = Some (session_a\<lparr>Session.AccessToken := ''tok-1''\<rparr>) \<and>
   sessions (snd (authService_GetUserToken stub_env (service_GetUserToken stub_env svc_a)
                    ctx_ok [] None ''code-1'' world_a)) ''s2''
     = sessions world_a ''s2'' \<and>
   apps (snd (authService_GetUserToken stub_env (service_GetUserToken stub_env svc_a)
                ctx_ok [] None ''code-1'' world_a)) = apps world_a"
proof -
  let ?w' = "snd (authService_GetUserToken stub_env (service_GetUserToken stub_env svc_a)
                    ctx_ok [] None ''code-1'' world_a)"
  have wf: "wf_sessions world_a"
    by (simp add: wf_sessions_def fixture_defs)
  have run: "authService_GetUserToken stub_env (service_GetUserToken stub_env svc_a)
               ctx_ok [] None ''code-1'' world_a = ((''tok-1'', None), ?w')"
    by (simp add: GetUserToken_world_a)
  from GetUserToken_frame [OF wf run]
  obtain sid s s' where h: "ctx_ok ''session_id'' = Some (StringValue sid)"
      "sessions world_a sid = Some s" "sessions ?w' sid = Some s'"
      "s' = s\<lparr>Session.AccessToken := ''tok-1''\<rparr>"
      "\<forall>k. k \<noteq> sid \<longrightarrow> sessions ?w' k = sessions world_a k"
      "apps ?w' = apps world_a"
    by blast
  from h(1) have sid: "sid = ''s1''"
    by (simp add: ctx_defs)
  with h(2) have s: "s = session_a"
    by (simp add: fixture_defs)
  from h(5) sid have "sessions ?w' ''s2'' = sessions world_a ''s2''"
    by simp
  with wf h(3,4,6) sid s show ?thesis by simp
qed

subsection \<open>The round trip of the sign-in\<close>

text \<open>
  Claim C4. Let \<open>GetAuthUrl\<close> succeed for an instance and return the session identifier
  \<open>sid\<close>. Let the request of the OAuth callback carry \<open>sid\<close>, let the repositories work for
  the reads and the write involved, and let the remote instance answer the token request for
  the authorization code with a body that decodes to \<open>token\<close>. Then the gateway's
  \<open>GetUserToken\<close> returns \<open>token\<close> without error, and it has overwritten the session stored
  under \<open>sid\<close>, whose access token was empty, by the same session with \<open>AccessToken = token\<close>.
\<close>

theorem signin_round_trip:
  assumes n: "n = (if strings_HasPrefix instance ''https://'' then instance
                   else ''https://'' @ instance)"
    and start: "authService_GetAuthUrl (service_GetAuthUrl E svc) ctx0 instance w
                  = ((redirectUrl, sid, None), w1)"
    and ctx: "ctx ''session_id'' = Some (StringValue sid)"
    and sid: "sid \<noteq> []"
    and code: "code \<noteq> []"
    and get_ok: "sessionGetFault E sid = None" "appGetFault E n = None"
    and add_ok: "sessionAddFault E
                   \<lparr>ID = sid, InstanceURL = n, AccessToken = token, CSRFToken = []\<rparr> = None"
    and stub: "\<forall>u payload. map_of payload ''code'' = Some code \<longrightarrow>
                 http_Post E u payload = Inr body"
    and dec: "decode_access_token E body = Inr token"
  shows "sessions w1 sid =
           Some \<lparr>ID = sid, InstanceURL = n, AccessToken = [], CSRFToken = []\<rparr> \<and>
         (\<exists>w2. authService_GetUserToken E (service_GetUserToken E svc) ctx sessionID c code w1
                  = ((token, None), w2) \<and>
               sessions w2 = (sessions w1)(sid \<mapsto>
                  \<lparr>ID = sid, InstanceURL = n, AccessToken = token, CSRFToken = []\<rparr>))"
proof -
  let ?s = "\<lparr>ID = sid, InstanceURL = n, AccessToken = [], CSRFToken = []\<rparr>"
  from start have start': "service_GetAuthUrl E svc ctx0 instance w = ((redirectUrl, sid, None), w1)"
    by (simp add: authService_GetAuthUrl_def)
  from GetAuthUrl_success(2) [OF n start'] have s1: "sessions w1 sid = Some ?s"
    by simp
  from GetAuthUrl_success(3) [OF n start'] obtain app where app: "apps w1 n = Some app"
    by blast
  let ?w1' = "log (EvAppGet n) (log (EvSessionGet sid) w1)"
  let ?c1 = "\<lparr>Client =
               \<lparr>Config.Server = App.InstanceURL app, Config.ClientID = App.ClientID app,
                Config.ClientSecret = App.ClientSecret app, Config.AccessToken = []\<rparr>,
             Session = ?s\<rparr>"
  have g: "getClient E ctx w1 = (Inr ?c1, ?w1')"
    using s1 app get_ok
    by (simp add: getClient_with_session_id [where ctx = ctx and sid = sid, OF ctx sid]
        sessionRepo_Get_def appRepo_Get_def)
  have post: "http_Post E (App.InstanceURL app @ ''/oauth/token'')
                [(''client_id'', App.ClientID app),
                 (''client_secret'', App.ClientSecret app),
                 (''code'', code),
                 (''grant_type'', ''authorization_code''),
                 (''redirect_uri'', clientWebsite svc @ ''/oauth_callback'')] = Inr body"
    using stub by simp
  have inner: "\<exists>w2. service_GetUserToken E svc ctx sid (Some ?c1) code ?w1' = ((token, None), w2)
                  \<and> sessions w2 = sessions w1"
    using s1 app get_ok code post dec
    by (simp add: service_GetUserToken_def net_http_Post_def repo_defs)
  then obtain w2 where w2: "service_GetUserToken E svc ctx sid (Some ?c1) code ?w1'
                              = ((token, None), w2)" "sessions w2 = sessions w1"
    by blast
  have "authService_GetUserToken E (service_GetUserToken E svc) ctx sessionID c code w1
          = ((token, None),
             log (EvSessionAdd (?s\<lparr>Session.AccessToken := token\<rparr>))
               (w2\<lparr>sessions := (sessions w2)(sid \<mapsto> ?s\<lparr>Session.AccessToken := token\<rparr>)\<rparr>))"
    using g w2(1) add_ok
    by (simp add: authService_GetUserToken_def sessionRepo_Add_def)
  with s1 w2(2) show ?thesis
    by (simp add: log_def)
qed

lemma GetAuthUrl_example_com:
  "authService_GetAuthUrl (service_GetAuthUrl stub_env svc_a) Map.empty ''example.com'' empty_world =
     ((''https:/example.com/oauth/authorize?client_id=cid&redirect_uri=https://bloat.example/oauth_callback&response_type=code&scope=read write follow&'',
       ''sid-'', None),
      \<lparr>sessions = [''sid-'' \<mapsto> \<lparr>ID = ''sid-'', InstanceURL = ''https://example.com'',
                                  AccessToken = [], CSRFToken = []\<rparr>],
       apps = [''https://example.com'' \<mapsto>
                 \<lparr>App.InstanceURL = ''https://example.com'', App.ClientID = ''cid'',
                  App.ClientSecret = ''secret''\<rparr>],
       rng = Suc 0,
       trace = [EvSessionAdd \<lparr>ID = ''sid-'', InstanceURL = ''https://example.com'',
                              AccessToken = [], CSRFToken = []\<rparr>,
                EvAppGet ''https://example.com'',
                EvRegisterApp
                  \<lparr>AppConfig.Server = ''https://example.com'', ClientName = ''bloat'',
                   Scopes = ''read write follow'', Website = ''https://bloat.example'',
                   RedirectURIs = ''https://bloat.example/oauth_callback''\<rparr>,
                EvAppAdd \<lparr>App.InstanceURL = ''https://example.com'', App.ClientID = ''cid'',
                          App.ClientSecret = ''secret''\<rparr>]\<rparr>)"
  by (simp add: authService_GetAuthUrl_def GetAuthUrl_defs repo_defs Let_def fixture_defs
      svc_a_def strings_HasPrefix_def path_Join_def path_Clean_def clean_step_def
      stub_url_String_def)

theorem signin_round_trip_witness:
  "sessions (snd (authService_GetAuthUrl (service_GetAuthUrl stub_env svc_a) Map.empty
                    ''example.com'' empty_world)) ''sid-'' =
     Some \<lparr>ID = ''sid-'', InstanceURL = ''https://example.com'',
           AccessToken = [], CSRFToken = []\<rparr> \<and>
   fst (authService_GetUserToken stub_env (service_GetUserToken stub_env svc_a) ctx_new
          [] None ''code-1''
          (snd (authService_GetAuthUrl (service_GetAuthUrl stub_env svc_a) Map.empty
                  ''example.com'' empty_world))) = (''tok-1'', None) \<and>
   sessions (snd (authService_GetUserToken stub_env (service_GetUserToken stub_env svc_a) ctx_new
          [] None ''code-1''
          (snd (authService_GetAuthUrl (service_GetAuthUrl stub_env svc_a) Map.empty
                  ''example.com'' empty_world)))) ''sid-'' =
     Some \<lparr>ID = ''sid-'', InstanceURL = ''https://example.com'',
           AccessToken = ''tok-1'', CSRFToken = []\<rparr>"
proof -
  have n: "''https://example.com'' =
             (if strings_HasPrefix ''example.com'' ''https://'' then ''example.com''
              else ''https://'' @ ''example.com'')"
    by (simp add: strings_HasPrefix_def)
  have ctx: "ctx_new ''session_id'' = Some (StringValue ''sid-'')"
    by (simp add: ctx_new_def)
  have stub: "\<forall>u payload. map_of payload ''code'' = Some ''code-1'' \<longrightarrow>
                http_Post stub_env u payload = Inr ''tok-1''"
    by (simp add: stub_env_def)
  have healthy: "''sid-'' \<noteq> []" "''code-1'' \<noteq> []"
      "sessionGetFault stub_env ''sid-'' = None"
      "appGetFault stub_env ''https://example.com'' = None"
      "sessionAddFault stub_env
         \<lparr>ID = ''sid-'', InstanceURL = ''https://example.com'',
          AccessToken = ''tok-1'', CSRFToken = []\<rparr> = None"
      "decode_access_token stub_env ''tok-1'' = Inr ''tok-1''"
    by (simp_all add: stub_env_def)
  from signin_round_trip [where E = stub_env and svc = svc_a and ctx = ctx_new
      and code = "''code-1''" and token = "''tok-1''" and body = "''tok-1''"
      and sessionID = "[]" and c = None,
      OF n GetAuthUrl_example_com ctx healthy(1-5) stub healthy(6)]
  show ?thesis
    by (auto simp: GetAuthUrl_example_com)
qed

end
